theory Spec2Isabelle
  imports Complex_Main "HOL-Library.AList"
begin

section \<open>The DOM as the carousel sees it\<close>

text \<open>
  The program is \<^verbatim>\<open>src/JSCarousel.js\<close>: the class \<^verbatim>\<open>FocusableElement\<close> (which
  descendants of an element can take the keyboard focus) and the class \<^verbatim>\<open>JSCarousel\<close>
  (the carousel itself). Both work on the browser's DOM, which is modelled here by the
  values the code reads and writes.

  Indices are integers. A value that may be \<^verbatim>\<open>null\<close> or \<^verbatim>\<open>undefined\<close> is an
  \<open>option\<close>.
\<close>

subsection \<open>Numbers\<close>

text \<open>
  The width and the left offsets are what \<^verbatim>\<open>parseFloat\<close> answers: a number, or
  \<^verbatim>\<open>NaN\<close> for a string that does not start with one (\<^verbatim>\<open>"auto"\<close>, the empty
  string). \<^verbatim>\<open>NaN\<close> propagates through \<^verbatim>\<open>*\<close> and \<^verbatim>\<open>+\<close>, and \<^verbatim>\<open>NaN !== 0\<close>
  holds: as values of this type, \<open>NaN \<noteq> Num 0\<close>. On numbers the arithmetic is exact:
  the rounding of a product or a sum to the nearest double is not modelled, nor are the
  infinities. The general properties below use of the arithmetic only that \<^verbatim>\<open>NaN\<close>
  propagates, that a number times 0 is 0 and that a number other than 0 times an integer
  other than 0 is not 0, all of which hold of doubles as well; the sums and products of
  the examples are exact in doubles.
\<close>

datatype jsnum = Num real | NaN

fun js_mul :: "jsnum \<Rightarrow> jsnum \<Rightarrow> jsnum" where
  "js_mul (Num x) (Num y) = Num (x * y)"
| "js_mul (Num x) NaN = NaN"
| "js_mul NaN b = NaN"

fun js_add :: "jsnum \<Rightarrow> jsnum \<Rightarrow> jsnum" where
  "js_add (Num x) (Num y) = Num (x + y)"
| "js_add (Num x) NaN = NaN"
| "js_add NaN b = NaN"

definition js_of_int :: "int \<Rightarrow> jsnum" where
  "js_of_int i = Num (real_of_int i)"

subsection \<open>Strings\<close>

text \<open>ASCII upper-casing, as the DOM applies it to the tag name of an HTML element.\<close>

definition toUpperCase_char :: "char \<Rightarrow> char" where
  "toUpperCase_char c =
     (case map_of (zip ''abcdefghijklmnopqrstuvwxyz'' ''ABCDEFGHIJKLMNOPQRSTUVWXYZ'') c of
        Some u \<Rightarrow> u
      | None \<Rightarrow> c)"

definition toUpperCase :: "string \<Rightarrow> string" where
  "toUpperCase s = map toUpperCase_char s"

subsection \<open>Elements\<close>

text \<open>
  An element below a panel. \<open>localName\<close> is the lower-case name a type selector such as
  \<^verbatim>\<open>input\<close> is matched against; \<open>html_document\<close> says that the element is an HTML
  element of an HTML document (a page served as \<^verbatim>\<open>text/html\<close>, as in the README),
  where \<^verbatim>\<open>el.tagName\<close> is the upper-cased name; in an XML document it is the name
  as written. \<open>el_style\<close> is the inline style (\<^verbatim>\<open>el.style[property]\<close>),
  \<open>el_computed\<close> what \<^verbatim>\<open>window.getComputedStyle(el).getPropertyValue(property)\<close>
  answers, \<open>el_type\<close> the property \<^verbatim>\<open>el.type\<close>. The computed style of an element
  that is not connected to a document has no declaration, so every property reads as the
  empty string there; that of a connected \<^verbatim>\<open><input type="hidden">\<close> of an HTML document
  has \<^verbatim>\<open>display: none\<close>, from the browser's own style sheet.
\<close>

record element =
  localName :: string
  html_document :: bool
  el_attributes :: "(string \<times> string) list"
  el_style :: "(string \<times> string) list"
  el_computed :: "(string \<times> string) list"
  el_type :: string

definition tagName :: "element \<Rightarrow> string" where
  "tagName el = (if html_document el then toUpperCase (localName el) else localName el)"

definition hasAttribute :: "element \<Rightarrow> string \<Rightarrow> bool" where
  "hasAttribute el name = (map_of (el_attributes el) name \<noteq> None)"

definition getAttribute :: "element \<Rightarrow> string \<Rightarrow> string option" where
  "getAttribute el name = map_of (el_attributes el) name"

definition setAttribute :: "element \<Rightarrow> string \<Rightarrow> string \<Rightarrow> element" where
  "setAttribute el name v = el\<lparr>el_attributes := AList.update name v (el_attributes el)\<rparr>"

text \<open>A style property that is not set reads as the empty string.\<close>

definition getPropertyValue :: "(string \<times> string) list \<Rightarrow> string \<Rightarrow> string" where
  "getPropertyValue decls property =
     (case map_of decls property of Some v \<Rightarrow> v | None \<Rightarrow> [])"

subsection \<open>Selectors\<close>

text \<open>
  The selectors the code builds are comma-separated lists of type selectors and of one
  attribute selector \<^verbatim>\<open>[tabindex='0']\<close> or \<^verbatim>\<open>[tabindex='-1']\<close>. A selector list
  is a list of simple selectors; an element matches the list when it matches one of them.
\<close>

datatype simple_selector = TypeSel string | AttrSel string string

fun matches_simple :: "simple_selector \<Rightarrow> element \<Rightarrow> bool" where
  "matches_simple (TypeSel t) el = (localName el = t)"
| "matches_simple (AttrSel a v) el = (getAttribute el a = Some v)"

definition matches :: "simple_selector list \<Rightarrow> element \<Rightarrow> bool" where
  "matches sel el = list_ex (\<lambda>s. matches_simple s el) sel"

text \<open>
  \<^verbatim>\<open>parent.querySelectorAll(selector)\<close> over the descendants \<open>ds\<close> of \<open>parent\<close>, which
  are listed in document order. The elements it returns are references into the
  document: a reference is the position of the element in \<open>ds\<close>.
\<close>

definition querySelectorAll :: "simple_selector list \<Rightarrow> element list \<Rightarrow> nat list" where
  "querySelectorAll sel ds = filter (\<lambda>i. matches sel (ds ! i)) [0..<length ds]"

section \<open>FocusableElement\<close>

record focusable_element =
  defaultFocusableHTMLElements :: "string list"
  focusableQuerySelector :: "simple_selector list"
  RULES :: "(element \<Rightarrow> bool) list"

definition hasStyle :: "element \<Rightarrow> string \<Rightarrow> string \<Rightarrow> bool" where
  "hasStyle el property v =
     (getPropertyValue (el_style el) property = v \<or>
      getPropertyValue (el_computed el) property = v)"

definition new_FocusableElement :: focusable_element where
  "new_FocusableElement =
     (let tags = [''a'', ''button'', ''input'', ''textarea'', ''select'', ''summary''] in
      \<lparr> defaultFocusableHTMLElements = tags,
        focusableQuerySelector = map TypeSel tags @ [AttrSel ''tabindex'' ''0''],
        RULES =
          [ \<lambda>el. \<not> hasStyle el ''display'' ''none'',
            \<lambda>el. \<not> hasStyle el ''visibility'' ''hidden'',
            \<lambda>el. \<not> hasAttribute el ''disabled'',
            \<lambda>el. \<not> hasAttribute el ''hidden'',
            \<lambda>el. (if tagName el = ''input'' then el_type el \<noteq> ''hidden'' else True) ] \<rparr>)"

text \<open>The loop of \<^verbatim>\<open>isFocusable\<close>: the first rule that answers false decides.\<close>

fun isFocusable_rules :: "(element \<Rightarrow> bool) list \<Rightarrow> element \<Rightarrow> bool" where
  "isFocusable_rules [] el = True"
| "isFocusable_rules (rule # rules) el =
     (if rule el = False then False else isFocusable_rules rules el)"

definition isFocusable :: "focusable_element \<Rightarrow> element \<Rightarrow> bool" where
  "isFocusable this el = isFocusable_rules (RULES this) el"

definition getKeyboardFocusableElements :: "focusable_element \<Rightarrow> element list \<Rightarrow> nat list" where
  "getKeyboardFocusableElements this ds =
     (let children = querySelectorAll (focusableQuerySelector this) ds
      in filter (\<lambda>i. isFocusable this (ds ! i)) children)"

text \<open>
  What the specification calls "an input" and "a positive tabindex": an element a type
  selector \<^verbatim>\<open>input\<close> selects, and a \<^verbatim>\<open>tabindex\<close> attribute that is a string of
  decimal digits, not all of them zero.
\<close>

definition is_input :: "element \<Rightarrow> bool" where
  "is_input el = (localName el = ''input'')"

definition positive_tabindex :: "element \<Rightarrow> bool" where
  "positive_tabindex el =
     (case getAttribute el ''tabindex'' of
        None \<Rightarrow> False
      | Some v \<Rightarrow> v \<noteq> [] \<and> list_all (\<lambda>c. c \<in> set ''0123456789'') v
                 \<and> \<not> list_all (\<lambda>c. c = CHR ''0'') v)"

text \<open>Example elements.\<close>

text \<open>
  \<^verbatim>\<open><input type="hidden" name="token">\<close> of an HTML document: connected to the
  document, and as \<^verbatim>\<open>document.createElement("input")\<close> gives it before it is inserted.
\<close>

definition hidden_input :: element where
  "hidden_input =
     \<lparr> localName = ''input'', html_document = True,
       el_attributes = [(''type'', ''hidden''), (''name'', ''token'')],
       el_style = [], el_computed = [(''display'', ''none''), (''visibility'', ''visible'')],
       el_type = ''hidden'' \<rparr>"

definition detached_hidden_input :: element where
  "detached_hidden_input = hidden_input\<lparr>el_computed := []\<rparr>"

definition button_tabindex_2 :: element where
  "button_tabindex_2 =
     \<lparr> localName = ''button'', html_document = True,
       el_attributes = [(''type'', ''button''), (''tabindex'', ''2'')],
       el_style = [], el_computed = [(''display'', ''inline-block''), (''visibility'', ''visible'')],
       el_type = ''button'' \<rparr>"

definition div_tabindex_3 :: element where
  "div_tabindex_3 =
     \<lparr> localName = ''div'', html_document = True,
       el_attributes = [(''tabindex'', ''3'')],
       el_style = [], el_computed = [(''display'', ''block''), (''visibility'', ''visible'')],
       el_type = [] \<rparr>"

section \<open>JSCarousel: the data\<close>

text \<open>
  A panel is a \<^verbatim>\<open>.carousel-content\<close> element: its attributes,
  \<^verbatim>\<open>parseFloat(style.left)\<close> (\<open>NaN\<close> while the inline style sets no \<^verbatim>\<open>left\<close>),
  \<^verbatim>\<open>parseFloat(getComputedStyle(p).width)\<close> (\<open>NaN\<close> when the computed width is
  \<^verbatim>\<open>auto\<close>, as it is for a panel below an element with \<^verbatim>\<open>display: none\<close>) and its
  descendants in document order. Panels are not nested in one another, and no tab lies
  inside a panel (the structure the README prescribes).
\<close>

record panel =
  p_attributes :: "(string \<times> string) list"
  p_left :: jsnum
  p_computed_width :: jsnum
  p_descendants :: "element list"

text \<open>
  A tab is an \<^verbatim>\<open>li\<close> of \<^verbatim>\<open>.carousel-tablist\<close>: its attributes and the class list
  of \<^verbatim>\<open>tab.querySelector(".pos")\<close>, \<open>None\<close> when there is no such descendant.
\<close>

record tab =
  t_attributes :: "(string \<times> string) list"
  t_pos :: "string list option"

datatype button = Button

record container =
  tablist_li :: "tab list"
  carousel_prev :: "button option"
  carousel_next :: "button option"
  carousel_content :: "panel list"

text \<open>The options object; a field that is \<^verbatim>\<open>undefined\<close> is \<open>None\<close>.\<close>

record options =
  opt_tabs :: "bool option"
  opt_autonav :: "bool option"
  opt_navigations_buttons :: "bool option"
  opt_autonav_delay :: "int option"
  opt_disable_keyboard_navigation :: "bool option"

text \<open>The errors the code throws, and the listeners and the timer it registers.\<close>

datatype error =
  ContainerUndefined
  | NoWindow
  | NoNextButton
  | NoPreviousButton
  | TabEmpty

datatype listener = NextClick | PrevClick | TabClick nat | Keydown | AutonavInterval

text \<open>
  The instance. \<open>tabs\<close> is the node list taken at construction: its items are the
  \<^verbatim>\<open>li\<close> elements of the document themselves, so a write through \<open>tabs\<close> is a
  write to \<open>tablist_li\<close> of the container too (\<open>write_tabs\<close>).
\<close>

record carousel =
  width :: jsnum
  max_index :: int
  current_index :: int
  current_delay :: int
  container :: container
  tabs :: "tab list option"
  buttons :: "button option \<times> button option"
  allow_tabs :: bool
  allow_autonav :: bool
  allow_navbuttons :: bool
  autonav_delay :: int
  disable_keyboard_navigation :: bool
  listeners :: "listener list"

text \<open>
  A method either returns or throws; the writes made before a throw stay, so both
  outcomes carry the state reached.
\<close>

datatype 'a outcome = Returned 'a | Thrown error 'a

fun outcome_state :: "'a outcome \<Rightarrow> 'a" where
  "outcome_state (Returned s) = s"
| "outcome_state (Thrown e s) = s"

fun is_returned :: "'a outcome \<Rightarrow> bool" where
  "is_returned (Returned s) = True"
| "is_returned (Thrown e s) = False"

fun thrown_error :: "'a outcome \<Rightarrow> error option" where
  "thrown_error (Returned s) = None"
| "thrown_error (Thrown e s) = Some e"

fun on_state :: "('a \<Rightarrow> 'b) \<Rightarrow> 'a outcome \<Rightarrow> 'b outcome" where
  "on_state f (Returned s) = Returned (f s)"
| "on_state f (Thrown e s) = Thrown e (f s)"

text \<open>\<^verbatim>\<open>xs[index]\<close>: \<^verbatim>\<open>undefined\<close> outside the list.\<close>

definition item :: "'a list \<Rightarrow> int \<Rightarrow> 'a option" where
  "item xs index =
     (if 0 \<le> index \<and> index < int (length xs) then Some (xs ! nat index) else None)"

definition p_setAttribute :: "panel \<Rightarrow> string \<Rightarrow> string \<Rightarrow> panel" where
  "p_setAttribute p name v = p\<lparr>p_attributes := AList.update name v (p_attributes p)\<rparr>"

definition p_getAttribute :: "panel \<Rightarrow> string \<Rightarrow> string option" where
  "p_getAttribute p name = map_of (p_attributes p) name"

text \<open>
  \<^verbatim>\<open>p.style.left = v + "px"\<close>. The style object drops a value that is not a length:
  assigning \<^verbatim>\<open>"NaNpx"\<close> leaves \<^verbatim>\<open>style.left\<close> as it was.
\<close>

definition set_style_left :: "panel \<Rightarrow> jsnum \<Rightarrow> panel" where
  "set_style_left p v = (case v of Num x \<Rightarrow> p\<lparr>p_left := Num x\<rparr> | NaN \<Rightarrow> p)"

definition t_setAttribute :: "tab \<Rightarrow> string \<Rightarrow> string \<Rightarrow> tab" where
  "t_setAttribute t name v = t\<lparr>t_attributes := AList.update name v (t_attributes t)\<rparr>"

definition t_getAttribute :: "tab \<Rightarrow> string \<Rightarrow> string option" where
  "t_getAttribute t name = map_of (t_attributes t) name"

text \<open>\<^verbatim>\<open>classList.add\<close> and \<^verbatim>\<open>classList.remove\<close>.\<close>

definition classList_add :: "string list \<Rightarrow> string \<Rightarrow> string list" where
  "classList_add cl c = (if c \<in> set cl then cl else cl @ [c])"

definition classList_remove :: "string list \<Rightarrow> string \<Rightarrow> string list" where
  "classList_remove cl c = filter (\<lambda>x. x \<noteq> c) cl"

definition write_tabs :: "carousel \<Rightarrow> tab list \<Rightarrow> carousel" where
  "write_tabs this ts =
     this\<lparr>tabs := Some ts, container := (container this)\<lparr>tablist_li := ts\<rparr>\<rparr>"

definition write_windows :: "carousel \<Rightarrow> panel list \<Rightarrow> carousel" where
  "write_windows this ws = this\<lparr>container := (container this)\<lparr>carousel_content := ws\<rparr>\<rparr>"

section \<open>JSCarousel: hiding, showing and moving the panels\<close>

text \<open>The loop \<^verbatim>\<open>for (let element of focusable_elements) element.setAttribute("tabindex", v)\<close>.\<close>

fun set_tabindex_each :: "string \<Rightarrow> nat list \<Rightarrow> element list \<Rightarrow> element list" where
  "set_tabindex_each v [] ds = ds"
| "set_tabindex_each v (i # refs) ds =
     set_tabindex_each v refs (ds[i := setAttribute (ds ! i) ''tabindex'' v])"

definition hide_window :: "panel \<Rightarrow> panel" where
  "hide_window window_content =
     (let w = p_setAttribute window_content ''aria-hidden'' ''true'';
          focusHandler = new_FocusableElement;
          focusable_elements = getKeyboardFocusableElements focusHandler (p_descendants w)
      in w\<lparr>p_descendants := set_tabindex_each ''-1'' focusable_elements (p_descendants w)\<rparr>)"

definition show_window :: "panel \<Rightarrow> panel" where
  "show_window window_content =
     (let w = p_setAttribute window_content ''aria-hidden'' ''false'';
          focusHandler = new_FocusableElement;
          focusHandler = focusHandler\<lparr>focusableQuerySelector :=
            map TypeSel (defaultFocusableHTMLElements focusHandler) @ [AttrSel ''tabindex'' ''-1'']\<rparr>;
          focusable_elements = getKeyboardFocusableElements focusHandler (p_descendants w)
      in w\<lparr>p_descendants := set_tabindex_each ''0'' focusable_elements (p_descendants w)\<rparr>)"

text \<open>
  The loop of \<^verbatim>\<open>move\<close> over the panels; \<open>j\<close> is the position of the panel at hand and
  \<open>targeted_window\<close> the position of \<^verbatim>\<open>all_windows[index]\<close>, \<open>None\<close> when that is
  \<^verbatim>\<open>undefined\<close>.
\<close>

fun move_each :: "jsnum \<Rightarrow> nat option \<Rightarrow> nat \<Rightarrow> panel list \<Rightarrow> panel list" where
  "move_each distance targeted_window j [] = []"
| "move_each distance targeted_window j (window_content # rest) =
     (let current_left_pos = p_left window_content;
          w = set_style_left window_content (js_add current_left_pos distance);
          w' = (if Some j \<noteq> targeted_window then hide_window w else show_window w)
      in w' # move_each distance targeted_window (Suc j) rest)"

definition move :: "carousel \<Rightarrow> int \<Rightarrow> carousel" where
  "move this index =
     (let all_windows = carousel_content (container this);
          distance = js_mul (width this) (js_of_int (current_index this - index));
          targeted_window =
            (if 0 \<le> index \<and> index < int (length all_windows) then Some (nat index) else None)
      in if distance \<noteq> Num 0
         then write_windows this (move_each distance targeted_window 0 all_windows)
         else this)"

section \<open>JSCarousel: activating a panel, next and previous\<close>

text \<open>
  The loop of \<^verbatim>\<open>active_panel\<close> over the other tabs; \<open>k\<close> is the position of the
  activated tab, \<open>j\<close> the position of the tab at hand. It throws at the first tab with
  no \<^verbatim>\<open>.pos\<close>, after having written that tab's attributes.
\<close>

fun deselect_each :: "nat \<Rightarrow> nat \<Rightarrow> tab list \<Rightarrow> tab list outcome" where
  "deselect_each k j [] = Returned []"
| "deselect_each k j (t # rest) =
     (if j = k then on_state (\<lambda>ts. t # ts) (deselect_each k (Suc j) rest)
      else
        (let t1 = t_setAttribute (t_setAttribute t ''aria-selected'' ''false'') ''tabindex'' ''-1''
         in case t_pos t1 of
              Some cl \<Rightarrow>
                (let t2 = t1\<lparr>t_pos := Some (classList_remove cl ''pos-active'')\<rparr>
                 in on_state (\<lambda>ts. t2 # ts) (deselect_each k (Suc j) rest))
            | None \<Rightarrow> Thrown TabEmpty (t1 # rest)))"

definition active_panel :: "carousel \<Rightarrow> int \<Rightarrow> carousel outcome" where
  "active_panel this index =
     (case tabs this of
        Some ts \<Rightarrow>
          (case item ts index of
             Some tab0 \<Rightarrow>
               (let tab1 = t_setAttribute (t_setAttribute tab0 ''aria-selected'' ''true'')
                              ''tabindex'' ''0''
                in case t_pos tab1 of
                     Some cl \<Rightarrow>
                       (let tab2 = tab1\<lparr>t_pos := Some (classList_add cl ''pos-active'')\<rparr>
                        in case deselect_each (nat index) 0 (ts[nat index := tab2]) of
                             Returned ts' \<Rightarrow> Returned (move (write_tabs this ts') index)
                           | Thrown e ts' \<Rightarrow> Thrown e (write_tabs this ts'))
                   | None \<Rightarrow> Thrown TabEmpty (write_tabs this (ts[nat index := tab1])))
           | None \<Rightarrow> Returned (move this index))
      | None \<Rightarrow> Returned (move this index))"

definition next_panel :: "carousel \<Rightarrow> carousel outcome" where
  "next_panel this =
     (if current_index this < max_index this
      then (case active_panel this (current_index this + 1) of
              Returned s \<Rightarrow> Returned (s\<lparr>current_index := current_index s + 1\<rparr>)
            | Thrown e s \<Rightarrow> Thrown e s)
      else (case active_panel this 0 of
              Returned s \<Rightarrow> Returned (s\<lparr>current_index := 0\<rparr>)
            | Thrown e s \<Rightarrow> Thrown e s))"

definition previous :: "carousel \<Rightarrow> carousel outcome" where
  "previous this =
     (if current_index this > 0
      then (case active_panel this (current_index this - 1) of
              Returned s \<Rightarrow> Returned (s\<lparr>current_index := current_index s - 1\<rparr>)
            | Thrown e s \<Rightarrow> Thrown e s)
      else (case active_panel this (max_index this) of
              Returned s \<Rightarrow> Returned (s\<lparr>current_index := max_index s\<rparr>)
            | Thrown e s \<Rightarrow> Thrown e s))"

text \<open>The click listener of the tab at position \<open>i\<close>.\<close>

definition tab_click :: "carousel \<Rightarrow> nat \<Rightarrow> carousel outcome" where
  "tab_click this i =
     (case active_panel this (int i) of
        Returned s \<Rightarrow> Returned (s\<lparr>current_index := int i, current_delay := 0\<rparr>)
      | Thrown e s \<Rightarrow> Thrown e s)"

text \<open>\<open>n\<close> calls of \<^verbatim>\<open>next()\<close> in a row; a call that throws ends the run.\<close>

fun next_times :: "nat \<Rightarrow> carousel \<Rightarrow> carousel outcome" where
  "next_times 0 this = Returned this"
| "next_times (Suc n) this =
     (case next_panel this of
        Returned s \<Rightarrow> next_times n s
      | Thrown e s \<Rightarrow> Thrown e s)"

section \<open>JSCarousel: the constructor\<close>

text \<open>
  \<^verbatim>\<open>new JSCarousel(container, options)\<close> either throws (\<open>Inl\<close>: there is no instance)
  or returns the instance. \<^verbatim>\<open>querySelectorAll\<close> answers a node list, empty when
  nothing matches and never \<^verbatim>\<open>null\<close>; \<^verbatim>\<open>querySelector\<close> answers the first match
  or \<^verbatim>\<open>null\<close>.
\<close>

definition addEventListener :: "carousel \<Rightarrow> listener \<Rightarrow> carousel" where
  "addEventListener this l = this\<lparr>listeners := listeners this @ [l]\<rparr>"

definition enable_navigation_buttons :: "carousel \<Rightarrow> error + carousel" where
  "enable_navigation_buttons this =
     (if allow_navbuttons this then
        (let prev_button = fst (buttons this);
             next_button = snd (buttons this)
         in case next_button of
              Some b \<Rightarrow>
                (let this1 = addEventListener this NextClick
                 in case prev_button of
                      Some b' \<Rightarrow> Inr (addEventListener this1 PrevClick)
                    | None \<Rightarrow> Inl NoPreviousButton)
            | None \<Rightarrow> Inl NoNextButton)
      else Inr this)"

definition enable_tabs_buttons :: "carousel \<Rightarrow> carousel" where
  "enable_tabs_buttons this =
     (case tabs this of
        Some ts \<Rightarrow>
          (if allow_tabs this
           then this\<lparr>listeners := listeners this @ map TabClick [0..<length ts]\<rparr>
           else this)
      | None \<Rightarrow> this)"

definition enable_keyboard_navigation :: "carousel \<Rightarrow> carousel" where
  "enable_keyboard_navigation this = addEventListener this Keydown"

fun set_left_each :: "jsnum \<Rightarrow> nat \<Rightarrow> panel list \<Rightarrow> panel list" where
  "set_left_each w i [] = []"
| "set_left_each w i (p # rest) =
     set_style_left p (js_mul w (js_of_int (int i))) # set_left_each w (Suc i) rest"

definition first_panel :: "panel list \<Rightarrow> panel option" where
  "first_panel ps = (case ps of [] \<Rightarrow> None | p # rest \<Rightarrow> Some p)"

definition constructor :: "container option \<Rightarrow> options option \<Rightarrow> error + carousel" where
  "constructor container_arg options_arg =
     (case container_arg of
        None \<Rightarrow> Inl ContainerUndefined
      | Some c \<Rightarrow>
          (let the_tabs = Some (tablist_li c);
               the_buttons = (carousel_prev c, carousel_next c);
               a_tabs =
                 (case options_arg of
                    Some opts \<Rightarrow>
                      (case opt_tabs opts of Some b \<Rightarrow> b | None \<Rightarrow> the_tabs \<noteq> None)
                  | None \<Rightarrow> the_tabs \<noteq> None);
               a_autonav =
                 (case options_arg of
                    Some opts \<Rightarrow> (case opt_autonav opts of Some b \<Rightarrow> b | None \<Rightarrow> True)
                  | None \<Rightarrow> True);
               presence_of_buttons = (fst the_buttons \<noteq> None \<and> snd the_buttons \<noteq> None);
               a_navbuttons =
                 (case options_arg of
                    Some opts \<Rightarrow>
                      (case opt_navigations_buttons opts of
                         Some b \<Rightarrow> b
                       | None \<Rightarrow> presence_of_buttons)
                  | None \<Rightarrow> presence_of_buttons);
               a_delay =
                 (case options_arg of
                    Some opts \<Rightarrow>
                      (case opt_autonav_delay opts of
                         Some d \<Rightarrow> (if d = 0 then 5000 else d)
                       | None \<Rightarrow> 5000)
                  | None \<Rightarrow> 5000);
               no_keyboard =
                 (case options_arg of
                    Some opts \<Rightarrow>
                      (case opt_disable_keyboard_navigation opts of
                         Some b \<Rightarrow> b
                       | None \<Rightarrow> False)
                  | None \<Rightarrow> False)
           in case first_panel (carousel_content c) of
                None \<Rightarrow> Inl NoWindow
              | Some first_window \<Rightarrow>
                  (let w = p_computed_width first_window;
                       windows = Some (set_left_each w 0 (carousel_content c))
                   in case windows of
                        None \<Rightarrow> Inl NoWindow
                      | Some ws \<Rightarrow>
                          (let m =
                                 (case the_tabs of
                                    Some ts \<Rightarrow>
                                      (if a_tabs then int (length ts) - 1 else int (length ws) - 1)
                                  | None \<Rightarrow> int (length ws) - 1);
                               this0 =
                                 \<lparr> width = w, max_index = m, current_index = 0,
                                   current_delay = 0,
                                   container = c\<lparr>carousel_content := ws\<rparr>,
                                   tabs = the_tabs, buttons = the_buttons,
                                   allow_tabs = a_tabs, allow_autonav = a_autonav,
                                   allow_navbuttons = a_navbuttons, autonav_delay = a_delay,
                                   disable_keyboard_navigation = no_keyboard,
                                   listeners = [] \<rparr>
                           in case (if a_navbuttons then enable_navigation_buttons this0
                                    else Inr this0) of
                                Inl e \<Rightarrow> Inl e
                              | Inr this1 \<Rightarrow>
                                  (let this2 = (if a_tabs \<and> the_tabs \<noteq> None
                                                then enable_tabs_buttons this1 else this1);
                                       this3 = (if \<not> no_keyboard
                                                then enable_keyboard_navigation this2 else this2);
                                       this4 = (if a_autonav
                                                then addEventListener this3 AutonavInterval
                                                else this3)
                                   in Inr this4)))))"

text \<open>What the claims read off the outcome of a construction.\<close>

definition constructed :: "error + carousel \<Rightarrow> bool" where
  "constructed r = (case r of Inl e \<Rightarrow> False | Inr this \<Rightarrow> True)"

definition construction_error :: "error + carousel \<Rightarrow> error option" where
  "construction_error r = (case r of Inl e \<Rightarrow> Some e | Inr this \<Rightarrow> None)"

definition panels_of :: "error + carousel \<Rightarrow> panel list" where
  "panels_of r = (case r of Inl e \<Rightarrow> [] | Inr this \<Rightarrow> carousel_content (container this))"

definition allow_tabs_of :: "error + carousel \<Rightarrow> bool option" where
  "allow_tabs_of r = (case r of Inl e \<Rightarrow> None | Inr this \<Rightarrow> Some (allow_tabs this))"

definition max_index_of :: "error + carousel \<Rightarrow> int option" where
  "max_index_of r = (case r of Inl e \<Rightarrow> None | Inr this \<Rightarrow> Some (max_index this))"

text \<open>
  "Exactly one panel is shown, the first": the panel at position 0 has
  \<^verbatim>\<open>aria-hidden="false"\<close> and every other panel has \<^verbatim>\<open>aria-hidden="true"\<close>.
\<close>

definition first_shown_rest_hidden :: "panel list \<Rightarrow> bool" where
  "first_shown_rest_hidden ps =
     (case ps of
        [] \<Rightarrow> False
      | p # rest \<Rightarrow>
          p_getAttribute p ''aria-hidden'' = Some ''false'' \<and>
          list_all (\<lambda>q. p_getAttribute q ''aria-hidden'' = Some ''true'') rest)"

section \<open>Example documents\<close>

definition link :: "(string \<times> string) list \<Rightarrow> element" where
  "link attrs =
     \<lparr> localName = ''a'', html_document = True, el_attributes = (''href'', ''#'') # attrs,
       el_style = [], el_computed = [(''display'', ''inline''), (''visibility'', ''visible'')],
       el_type = [] \<rparr>"

definition image :: element where
  "image =
     \<lparr> localName = ''img'', html_document = True, el_attributes = [(''alt'', ''Image'')],
       el_style = [], el_computed = [(''display'', ''inline''), (''visibility'', ''visible'')],
       el_type = [] \<rparr>"

definition good_tab :: "bool \<Rightarrow> tab" where
  "good_tab selected =
     \<lparr> t_attributes =
         [(''role'', ''tab''), (''tabindex'', if selected then ''0'' else ''-1''),
          (''aria-selected'', if selected then ''true'' else ''false'')],
       t_pos = Some (if selected then [''pos'', ''pos-active''] else [''pos'']) \<rparr>"

definition empty_tab :: tab where
  "empty_tab = \<lparr> t_attributes = [(''role'', ''tab'')], t_pos = None \<rparr>"

text \<open>A panel as the README writes it, and one with no \<^verbatim>\<open>aria-hidden\<close> attribute.\<close>

definition readme_panel :: "bool \<Rightarrow> panel" where
  "readme_panel shown =
     \<lparr> p_attributes =
         [(''role'', ''tabpanel''), (''aria-hidden'', if shown then ''false'' else ''true'')],
       p_left = NaN, p_computed_width = Num 600,
       p_descendants = [image, link (if shown then [] else [(''tabindex'', ''-1'')])] \<rparr>"

definition bare_panel :: panel where
  "bare_panel =
     \<lparr> p_attributes = [(''role'', ''tabpanel'')], p_left = NaN, p_computed_width = Num 600,
       p_descendants = [image, link []] \<rparr>"

text \<open>
  The README's carousel (three panels, three tabs, both buttons); two panels that do not
  say whether they are hidden; three panels and no tab list; one tab with no
  \<^verbatim>\<open>.pos\<close>.
\<close>

definition readme_container :: container where
  "readme_container =
     \<lparr> tablist_li = [good_tab True, good_tab False, good_tab False],
       carousel_prev = Some Button, carousel_next = Some Button,
       carousel_content = [readme_panel True, readme_panel False, readme_panel False] \<rparr>"

definition bare_container :: container where
  "bare_container =
     \<lparr> tablist_li = [good_tab True, good_tab False],
       carousel_prev = Some Button, carousel_next = Some Button,
       carousel_content = [bare_panel, bare_panel] \<rparr>"

definition no_tablist_container :: container where
  "no_tablist_container =
     \<lparr> tablist_li = [], carousel_prev = None, carousel_next = None,
       carousel_content = [readme_panel True, readme_panel False, readme_panel False] \<rparr>"

definition empty_tab_container :: container where
  "empty_tab_container =
     \<lparr> tablist_li = [good_tab True, empty_tab],
       carousel_prev = Some Button, carousel_next = Some Button,
       carousel_content = [readme_panel True, readme_panel False] \<rparr>"

definition no_options :: options where
  "no_options =
     \<lparr> opt_tabs = None, opt_autonav = None, opt_navigations_buttons = None,
       opt_autonav_delay = None, opt_disable_keyboard_navigation = None \<rparr>"

text \<open>The instance the README's carousel gives, as the constructor leaves it.\<close>

definition readme_carousel :: carousel where
  "readme_carousel =
     \<lparr> width = Num 600, max_index = 2, current_index = 0, current_delay = 0,
       container = readme_container\<lparr>carousel_content :=
         [(readme_panel True)\<lparr>p_left := Num 0\<rparr>, (readme_panel False)\<lparr>p_left := Num 600\<rparr>,
          (readme_panel False)\<lparr>p_left := Num 1200\<rparr>]\<rparr>,
       tabs = Some (tablist_li readme_container),
       buttons = (Some Button, Some Button),
       allow_tabs = True, allow_autonav = True, allow_navbuttons = True,
       autonav_delay = 5000, disable_keyboard_navigation = False,
       listeners = [NextClick, PrevClick, TabClick 0, TabClick 1, TabClick 2, Keydown,
                    AutonavInterval] \<rparr>"

text \<open>
  The README's carousel built while an ancestor has \<^verbatim>\<open>display: none\<close> (a closed
  dialog, an inactive tab of the page): the computed width of a panel is \<^verbatim>\<open>auto\<close>, the
  width the constructor reads is \<open>NaN\<close>, and the left offsets it assigns are dropped.
\<close>

definition unrendered_container :: container where
  "unrendered_container =
     readme_container\<lparr>carousel_content :=
       map (\<lambda>p. p\<lparr>p_computed_width := NaN\<rparr>) (carousel_content readme_container)\<rparr>"

definition unrendered_carousel :: carousel where
  "unrendered_carousel =
     readme_carousel\<lparr>width := NaN, container := unrendered_container\<rparr>"

section \<open>Notions the properties are stated with\<close>

text \<open>The distance \<^verbatim>\<open>move\<close> computes for a target index.\<close>

definition move_distance :: "carousel \<Rightarrow> int \<Rightarrow> jsnum" where
  "move_distance this index = js_mul (width this) (js_of_int (current_index this - index))"

text \<open>
  The panels of the carousel, as \<^verbatim>\<open>this.container.querySelectorAll(".carousel-content")\<close>
  lists them.
\<close>

definition panels :: "carousel \<Rightarrow> panel list" where
  "panels this = carousel_content (container this)"

text \<open>
  The classifier in its "revealable" mode: the instance \<^verbatim>\<open>show_window\<close> builds, whose
  selector has \<^verbatim>\<open>[tabindex='-1']\<close> in place of \<^verbatim>\<open>[tabindex='0']\<close>.
\<close>

definition revealable_FocusableElement :: focusable_element where
  "revealable_FocusableElement =
     new_FocusableElement\<lparr>focusableQuerySelector :=
       map TypeSel (defaultFocusableHTMLElements new_FocusableElement)
         @ [AttrSel ''tabindex'' ''-1'']\<rparr>"

text \<open>Well-formed tab markup: every tab has a \<^verbatim>\<open>.pos\<close> descendant.\<close>

definition has_pos :: "tab \<Rightarrow> bool" where
  "has_pos t = (t_pos t \<noteq> None)"

definition tabs_wellformed :: "carousel \<Rightarrow> bool" where
  "tabs_wellformed this = (case tabs this of None \<Rightarrow> True | Some ts \<Rightarrow> list_all has_pos ts)"

text \<open>
  Navigation buttons are required by the configuration when the options say
  \<^verbatim>\<open>navigations_buttons: true\<close>.
\<close>

definition navigation_buttons_required :: "options option \<Rightarrow> bool" where
  "navigation_buttons_required options_arg =
     (case options_arg of
        Some opts \<Rightarrow> opt_navigations_buttons opts = Some True
      | None \<Rightarrow> False)"

definition require_buttons :: options where
  "require_buttons = no_options\<lparr>opt_navigations_buttons := Some True\<rparr>"

text \<open>
  The README's carousel with no panel, with no next button, with no previous button; and
  its instance with a second tab that has no \<^verbatim>\<open>.pos\<close>.
\<close>

definition no_panel_container :: container where
  "no_panel_container = readme_container\<lparr>carousel_content := []\<rparr>"

definition no_next_container :: container where
  "no_next_container = readme_container\<lparr>carousel_next := None\<rparr>"

definition no_prev_container :: container where
  "no_prev_container = readme_container\<lparr>carousel_prev := None\<rparr>"

definition empty_tab_carousel :: carousel where
  "empty_tab_carousel = write_tabs readme_carousel [good_tab True, empty_tab, good_tab False]"

section \<open>Properties of FocusableElement\<close>

lemma isFocusable_new:
  "isFocusable new_FocusableElement el \<longleftrightarrow>
     \<not> hasStyle el ''display'' ''none'' \<and> \<not> hasStyle el ''visibility'' ''hidden'' \<and>
     \<not> hasAttribute el ''disabled'' \<and> \<not> hasAttribute el ''hidden'' \<and>
     (tagName el = ''input'' \<longrightarrow> el_type el \<noteq> ''hidden'')"
  by (simp add: isFocusable_def new_FocusableElement_def)

lemma toUpperCase_input: "toUpperCase ''input'' = ''INPUT''"
  by (simp add: toUpperCase_def toUpperCase_char_def)

text \<open>
  C3, at the failing input. The claim: \<open>isFocusable\<close> answers true if and only if the
  element is displayed, visible, has neither a \<^verbatim>\<open>disabled\<close> nor a \<^verbatim>\<open>hidden\<close>
  attribute and, when it is an input, its type is not \<^verbatim>\<open>hidden\<close>. The fifth rule
  compares \<^verbatim>\<open>el.tagName\<close> with the lower-case \<^verbatim>\<open>"input"\<close>, and the tag name of an
  input of an HTML document is \<^verbatim>\<open>"INPUT"\<close>: the rule never applies there. A hidden
  input that is connected to the document is still refused, by the first rule, since its
  computed display is \<^verbatim>\<open>none\<close>; one that is not connected has no computed display,
  passes the first four rules, and is classified focusable; \<open>getKeyboardFocusableElements\<close>
  on a parent that is not connected returns it.
\<close>

theorem isFocusable_detached_hidden_input:
  "is_input detached_hidden_input \<and> el_type detached_hidden_input = ''hidden'' \<and>
   tagName detached_hidden_input = ''INPUT'' \<and>
   \<not> hasStyle detached_hidden_input ''display'' ''none'' \<and>
   isFocusable new_FocusableElement detached_hidden_input = True \<and>
   getKeyboardFocusableElements new_FocusableElement [detached_hidden_input] = [0] \<and>
   isFocusable new_FocusableElement hidden_input = False"
  by code_simp

lemma distinct_querySelectorAll: "distinct (querySelectorAll sel ds)"
  by (simp add: querySelectorAll_def)

lemma distinct_getKeyboardFocusableElements:
  "distinct (getKeyboardFocusableElements h ds)"
  by (simp add: getKeyboardFocusableElements_def distinct_querySelectorAll)

lemma set_getKeyboardFocusableElements:
  "i \<in> set (getKeyboardFocusableElements h ds) \<longleftrightarrow>
     i < length ds \<and> matches (focusableQuerySelector h) (ds ! i) \<and> isFocusable h (ds ! i)"
  by (auto simp: getKeyboardFocusableElements_def querySelectorAll_def)

lemma matches_default_selector:
  "matches (focusableQuerySelector new_FocusableElement) el \<longleftrightarrow>
     localName el \<in> set (defaultFocusableHTMLElements new_FocusableElement) \<or>
     getAttribute el ''tabindex'' = Some ''0''"
  by (auto simp: matches_def new_FocusableElement_def)

lemma positive_tabindex_not_0:
  "positive_tabindex el \<Longrightarrow> getAttribute el ''tabindex'' \<noteq> Some ''0''"
  by (auto simp: positive_tabindex_def)

text \<open>
  C9, as amended. The claim says that \<open>getKeyboardFocusableElements\<close> never returns an
  element with a positive \<^verbatim>\<open>tabindex\<close>, not even a button or a link. What the code
  does: with the default selector it returns exactly the descendants that pass
  \<open>isFocusable\<close> and either have a tag of the allowlist or carry \<^verbatim>\<open>tabindex="0"\<close>. So an
  element with a positive \<^verbatim>\<open>tabindex\<close> is never returned unless its tag is in the
  allowlist; an element of the allowlist is returned whatever its \<^verbatim>\<open>tabindex\<close>.
\<close>

theorem getKeyboardFocusableElements_selected:
  "(i \<in> set (getKeyboardFocusableElements new_FocusableElement ds) \<longleftrightarrow>
      i < length ds \<and> isFocusable new_FocusableElement (ds ! i) \<and>
      (localName (ds ! i) \<in> set (defaultFocusableHTMLElements new_FocusableElement) \<or>
       getAttribute (ds ! i) ''tabindex'' = Some ''0'')) \<and>
   (positive_tabindex (ds ! i) \<longrightarrow>
      localName (ds ! i) \<notin> set (defaultFocusableHTMLElements new_FocusableElement) \<longrightarrow>
      i \<notin> set (getKeyboardFocusableElements new_FocusableElement ds))"
  using positive_tabindex_not_0 [of "ds ! i"]
  by (auto simp: set_getKeyboardFocusableElements matches_default_selector)

text \<open>
  At a \<^verbatim>\<open><div tabindex="3">\<close> followed by a \<^verbatim>\<open><button tabindex="2">\<close>: the
  \<^verbatim>\<open>div\<close> (position 0) is not returned.
\<close>

theorem getKeyboardFocusableElements_selected_witness:
  "positive_tabindex ([div_tabindex_3, button_tabindex_2] ! 0) \<and>
   localName ([div_tabindex_3, button_tabindex_2] ! 0)
     \<notin> set (defaultFocusableHTMLElements new_FocusableElement) \<and>
   0 \<notin> set (getKeyboardFocusableElements new_FocusableElement [div_tabindex_3, button_tabindex_2])"
proof -
  have h: "positive_tabindex ([div_tabindex_3, button_tabindex_2] ! 0) \<and>
     localName ([div_tabindex_3, button_tabindex_2] ! 0)
       \<notin> set (defaultFocusableHTMLElements new_FocusableElement)"
    by code_simp
  with getKeyboardFocusableElements_selected [of 0 "[div_tabindex_3, button_tabindex_2]"]
  show ?thesis by blast
qed

text \<open>
  C9 as stated fails there: the button (position 1) has a positive \<^verbatim>\<open>tabindex\<close> and
  is returned.
\<close>

theorem positive_tabindex_button_returned:
  "getKeyboardFocusableElements new_FocusableElement [div_tabindex_3, button_tabindex_2] = [1] \<and>
   positive_tabindex ([div_tabindex_3, button_tabindex_2] ! 1) \<and>
   isFocusable new_FocusableElement ([div_tabindex_3, button_tabindex_2] ! 1)"
  by code_simp

section \<open>Properties of the panel transition\<close>

lemma length_set_tabindex_each [simp]:
  "length (set_tabindex_each v refs ds) = length ds"
  by (induction refs arbitrary: ds) auto

lemma nth_set_tabindex_each:
  "distinct refs \<Longrightarrow> k < length ds \<Longrightarrow>
   set_tabindex_each v refs ds ! k =
     (if k \<in> set refs then setAttribute (ds ! k) ''tabindex'' v else ds ! k)"
proof (induction refs arbitrary: ds)
  case Nil
  then show ?case by simp
next
  case (Cons i refs)
  from Cons.prems have d: "distinct refs" and i: "i \<notin> set refs" by simp_all
  have len: "k < length (ds[i := setAttribute (ds ! i) ''tabindex'' v])"
    using Cons.prems by simp
  show ?case
  proof (cases "k = i")
    case True
    with Cons.IH [OF d len] i Cons.prems show ?thesis by simp
  next
    case False
    with Cons.IH [OF d len] show ?thesis by simp
  qed
qed

lemma hide_window_left [simp]: "p_left (hide_window w) = p_left w"
  by (simp add: hide_window_def p_setAttribute_def Let_def)

lemma show_window_left [simp]: "p_left (show_window w) = p_left w"
  by (simp add: show_window_def p_setAttribute_def Let_def)

lemma hide_window_aria: "p_getAttribute (hide_window w) ''aria-hidden'' = Some ''true''"
  by (simp add: hide_window_def p_setAttribute_def p_getAttribute_def Let_def update_conv')

lemma show_window_aria: "p_getAttribute (show_window w) ''aria-hidden'' = Some ''false''"
  by (simp add: show_window_def p_setAttribute_def p_getAttribute_def Let_def update_conv')

lemma hide_window_descendants:
  "p_descendants (hide_window w) =
     set_tabindex_each ''-1''
       (getKeyboardFocusableElements new_FocusableElement (p_descendants w)) (p_descendants w)"
  by (simp add: hide_window_def p_setAttribute_def Let_def)

lemma show_window_descendants:
  "p_descendants (show_window w) =
     set_tabindex_each ''0''
       (getKeyboardFocusableElements revealable_FocusableElement (p_descendants w)) (p_descendants w)"
  by (simp add: show_window_def p_setAttribute_def Let_def revealable_FocusableElement_def)

lemma set_style_left_fields [simp]:
  "p_attributes (set_style_left p v) = p_attributes p"
  "p_descendants (set_style_left p v) = p_descendants p"
  "p_computed_width (set_style_left p v) = p_computed_width p"
  by (simp_all add: set_style_left_def split: jsnum.splits)

lemma p_left_set_style_left_add:
  "p_left (set_style_left p (js_add (p_left p) d)) =
     (if d = NaN then p_left p else js_add (p_left p) d)"
  by (cases "p_left p"; cases d) (simp_all add: set_style_left_def)

lemma length_move_each [simp]: "length (move_each d t j ws) = length ws"
  by (induction ws arbitrary: j) (auto simp: Let_def)

lemma nth_move_each:
  "i < length ws \<Longrightarrow>
   move_each d t j ws ! i =
     (if Some (j + i) \<noteq> t
      then hide_window (set_style_left (ws ! i) (js_add (p_left (ws ! i)) d))
      else show_window (set_style_left (ws ! i) (js_add (p_left (ws ! i)) d)))"
proof (induction ws arbitrary: i j)
  case Nil
  then show ?case by simp
next
  case (Cons w ws)
  show ?case
  proof (cases i)
    case 0
    then show ?thesis by (simp add: Let_def)
  next
    case (Suc i')
    with Cons.prems have "i' < length ws" by simp
    from Cons.IH [OF this, of "Suc j"] Suc show ?thesis by (simp add: Let_def)
  qed
qed

lemma panels_move:
  "panels (move this index) =
     (let t = (if 0 \<le> index \<and> index < int (length (panels this)) then Some (nat index) else None)
      in if move_distance this index \<noteq> Num 0
         then move_each (move_distance this index) t 0 (panels this)
         else panels this)"
  by (simp add: move_def panels_def write_windows_def move_distance_def Let_def)

lemma target_position:
  "j < n \<Longrightarrow> (Some j \<noteq> (if 0 \<le> index \<and> index < int n then Some (nat index) else None)) \<longleftrightarrow> int j \<noteq> index"
  by auto

lemma nth_panels_move:
  assumes "move_distance this index \<noteq> Num 0"
      and "j < length (panels this)"
  shows "panels (move this index) ! j =
     (if int j \<noteq> index
      then hide_window (set_style_left (panels this ! j)
             (js_add (p_left (panels this ! j)) (move_distance this index)))
      else show_window (set_style_left (panels this ! j)
             (js_add (p_left (panels this ! j)) (move_distance this index))))"
  using assms by (simp add: panels_move nth_move_each target_position)

lemma move_distance_same_index:
  "current_index this = i \<Longrightarrow> width this \<noteq> NaN \<Longrightarrow> move_distance this i = Num 0"
  by (cases "width this") (simp_all add: move_distance_def js_of_int_def)

lemma move_distance_other_index:
  "current_index this \<noteq> i \<Longrightarrow> width this \<noteq> Num 0 \<Longrightarrow> move_distance this i \<noteq> Num 0"
  by (cases "width this") (simp_all add: move_distance_def js_of_int_def)

lemma move_same_index:
  "current_index this = i \<Longrightarrow> width this \<noteq> NaN \<Longrightarrow> move this i = this"
  using move_distance_same_index [of this i]
  by (simp add: move_def move_distance_def)

lemma move_fields [simp]:
  "current_index (move this i) = current_index this"
  "max_index (move this i) = max_index this"
  "width (move this i) = width this"
  "tabs (move this i) = tabs this"
  by (simp_all add: move_def write_windows_def Let_def)

text \<open>
  C1. When the distance \<open>width * (current_index - index)\<close> passes the test
  \<^verbatim>\<open>distance !== 0\<close>, \<open>move\<close> keeps the number of panels and, for the panel at every
  position \<open>j\<close>: adds the distance to its left offset; sets \<^verbatim>\<open>aria-hidden\<close> to
  \<^verbatim>\<open>"true"\<close> when \<open>j\<close> is not the target and to \<^verbatim>\<open>"false"\<close> when it is; and sets
  \<^verbatim>\<open>tabindex\<close> on exactly the descendants the classifier returns for that panel, to
  \<^verbatim>\<open>"-1"\<close> with the default selector when \<open>j\<close> is not the target and to \<^verbatim>\<open>"0"\<close> with
  the revealable selector when it is, every other descendant being left as it was. When
  the distance is no number at all (\<open>NaN\<close>, which passes the test too) the hiding and the
  showing are the same and the offsets stay, the assigned \<^verbatim>\<open>"NaNpx"\<close> being dropped.
\<close>

theorem move_nonzero_distance:
  assumes "move_distance this index \<noteq> Num 0"
      and "j < length (panels this)"
  shows "length (panels (move this index)) = length (panels this) \<and>
     p_left (panels (move this index) ! j) =
       (if move_distance this index = NaN then p_left (panels this ! j)
        else js_add (p_left (panels this ! j)) (move_distance this index)) \<and>
     p_getAttribute (panels (move this index) ! j) ''aria-hidden'' =
       Some (if int j = index then ''false'' else ''true'') \<and>
     length (p_descendants (panels (move this index) ! j)) =
       length (p_descendants (panels this ! j)) \<and>
     (\<forall>k < length (p_descendants (panels this ! j)).
        p_descendants (panels (move this index) ! j) ! k =
          (if k \<in> set (getKeyboardFocusableElements
                         (if int j = index then revealable_FocusableElement
                          else new_FocusableElement)
                         (p_descendants (panels this ! j)))
           then setAttribute (p_descendants (panels this ! j) ! k) ''tabindex''
                  (if int j = index then ''0'' else ''-1'')
           else p_descendants (panels this ! j) ! k))"
proof -
  let ?d = "move_distance this index"
  let ?w = "set_style_left (panels this ! j) (js_add (p_left (panels this ! j)) ?d)"
  have len: "length (panels (move this index)) = length (panels this)"
    using assms(1) by (simp add: panels_move)
  have left: "p_left ?w = (if ?d = NaN then p_left (panels this ! j)
                          else js_add (p_left (panels this ! j)) ?d)"
    by (rule p_left_set_style_left_add)
  have p': "panels (move this index) ! j = (if int j \<noteq> index then hide_window ?w else show_window ?w)"
    using assms by (rule nth_panels_move)
  show ?thesis
  proof (cases "int j = index")
    case True
    with p' have "panels (move this index) ! j = show_window ?w" by simp
    with True len left show ?thesis
      by (simp add: show_window_aria show_window_descendants nth_set_tabindex_each
          distinct_getKeyboardFocusableElements)
  next
    case False
    with p' have "panels (move this index) ! j = hide_window ?w" by simp
    with False len left show ?thesis
      by (simp add: hide_window_aria hide_window_descendants nth_set_tabindex_each
          distinct_getKeyboardFocusableElements)
  qed
qed

text \<open>
  On the README's carousel, moving from panel 0 to panel 1: panel 0 goes to -600 and is
  hidden, its link gets \<^verbatim>\<open>tabindex="-1"\<close>; panel 1 goes to 0 and is shown, its link
  gets \<^verbatim>\<open>tabindex="0"\<close>.
\<close>

theorem move_nonzero_distance_witness:
  "move_distance readme_carousel 1 \<noteq> Num 0 \<and>
   1 < length (panels readme_carousel) \<and>
   length (panels (move readme_carousel 1)) = 3 \<and>
   p_left (panels (move readme_carousel 1) ! 0) = Num (- 600) \<and>
   p_getAttribute (panels (move readme_carousel 1) ! 0) ''aria-hidden'' = Some ''true'' \<and>
   getAttribute (p_descendants (panels (move readme_carousel 1) ! 0) ! 1) ''tabindex''
     = Some ''-1'' \<and>
   p_left (panels (move readme_carousel 1) ! 1) = Num 0 \<and>
   p_getAttribute (panels (move readme_carousel 1) ! 1) ''aria-hidden'' = Some ''false'' \<and>
   getAttribute (p_descendants (panels (move readme_carousel 1) ! 1) ! 1) ''tabindex''
     = Some ''0''"
proof -
  have d: "move_distance readme_carousel 1 = Num (- 600)"
    by (simp add: move_distance_def readme_carousel_def js_of_int_def)
  then have h: "move_distance readme_carousel 1 \<noteq> Num 0" by simp
  have ps: "panels readme_carousel =
      [(readme_panel True)\<lparr>p_left := Num 0\<rparr>, (readme_panel False)\<lparr>p_left := Num 600\<rparr>,
       (readme_panel False)\<lparr>p_left := Num 1200\<rparr>]"
    by (simp add: panels_def readme_carousel_def)
  have ds: "p_descendants (readme_panel True) = [image, link []]"
    "p_descendants (readme_panel False) = [image, link [(''tabindex'', ''-1'')]]"
    by (simp_all add: readme_panel_def)
  have f: "getKeyboardFocusableElements new_FocusableElement [image, link []] = [1]"
    "getKeyboardFocusableElements revealable_FocusableElement
       [image, link [(''tabindex'', ''-1'')]] = [1]"
    by code_simp+
  have g: "getAttribute (setAttribute (link []) ''tabindex'' ''-1'') ''tabindex'' = Some ''-1''"
    "getAttribute (setAttribute (link [(''tabindex'', ''-1'')]) ''tabindex'' ''0'') ''tabindex''
       = Some ''0''"
    by (simp_all add: getAttribute_def setAttribute_def update_conv')
  have l0: "0 < length (panels readme_carousel)" and l1: "1 < length (panels readme_carousel)"
    by (simp_all add: ps)
  from move_nonzero_distance [OF h l0]
  have a: "length (panels (move readme_carousel 1)) = 3"
    "p_left (panels (move readme_carousel 1) ! 0) = Num (- 600)"
    "p_getAttribute (panels (move readme_carousel 1) ! 0) ''aria-hidden'' = Some ''true''"
    "getAttribute (p_descendants (panels (move readme_carousel 1) ! 0) ! 1) ''tabindex''
       = Some ''-1''"
    by (simp_all add: ps ds d f g)
  from move_nonzero_distance [OF h l1]
  have b: "p_left (panels (move readme_carousel 1) ! 1) = Num 0"
    "p_getAttribute (panels (move readme_carousel 1) ! 1) ''aria-hidden'' = Some ''false''"
    "getAttribute (p_descendants (panels (move readme_carousel 1) ! 1) ! 1) ''tabindex''
       = Some ''0''"
    by (simp_all add: ps ds d f g)
  from h l1 a b show ?thesis by blast
qed

section \<open>Properties of activating a panel\<close>

lemma write_tabs_fields [simp]:
  "current_index (write_tabs this ts) = current_index this"
  "max_index (write_tabs this ts) = max_index this"
  "width (write_tabs this ts) = width this"
  "tabs (write_tabs this ts) = Some ts"
  "carousel_content (container (write_tabs this ts)) = carousel_content (container this)"
  by (simp_all add: write_tabs_def)

lemma panels_write_tabs [simp]: "panels (write_tabs this ts) = panels this"
  by (simp add: panels_def)

lemma move_distance_write_tabs [simp]:
  "move_distance (write_tabs this ts) i = move_distance this i"
  by (simp add: move_distance_def)

lemma active_panel_current_index:
  "current_index (outcome_state (active_panel this i)) = current_index this"
  by (simp add: active_panel_def Let_def split: option.splits outcome.splits)

lemma active_panel_max_index:
  "max_index (outcome_state (active_panel this i)) = max_index this"
  by (simp add: active_panel_def Let_def split: option.splits outcome.splits)

lemma active_panel_Returned_panels:
  "active_panel this index = Returned s \<Longrightarrow> panels s = panels (move this index)"
  by (auto simp: active_panel_def Let_def panels_move split: option.splits outcome.splits)

lemma next_panel_Returned:
  "next_panel this = Returned s \<Longrightarrow>
   current_index s = (if current_index this < max_index this then current_index this + 1 else 0)
   \<and> max_index s = max_index this"
  using active_panel_current_index [of this "current_index this + 1"]
    active_panel_max_index [of this "current_index this + 1"]
    active_panel_current_index [of this 0] active_panel_max_index [of this 0]
  by (auto simp: next_panel_def split: if_splits outcome.splits)

lemma previous_Returned:
  "previous this = Returned s \<Longrightarrow>
   current_index s = (if current_index this > 0 then current_index this - 1 else max_index this)
   \<and> max_index s = max_index this"
  using active_panel_current_index [of this "current_index this - 1"]
    active_panel_max_index [of this "current_index this - 1"]
    active_panel_current_index [of this "max_index this"]
    active_panel_max_index [of this "max_index this"]
  by (auto simp: previous_def split: if_splits outcome.splits)

lemma tab_click_Returned: "tab_click this i = Returned s \<Longrightarrow> current_index s = int i"
  by (auto simp: tab_click_def split: outcome.splits)

text \<open>
  C7, as amended. The claim says that \<open>active_panel\<close> called with the current index
  changes no panel, the distance being zero. That is so when the width read at
  construction is a number: the distance is that number times 0, \<open>move\<close> takes the
  short-circuit and every left offset, every \<^verbatim>\<open>aria-hidden\<close> and every descendant stays
  as it is, whether the call returns or throws on the tabs.
\<close>

theorem active_panel_current_index_keeps_panels:
  assumes "width this \<noteq> NaN"
  shows "panels (outcome_state (active_panel this (current_index this))) = panels this"
  using assms
  by (simp add: active_panel_def panels_def Let_def move_same_index
      split: option.splits outcome.splits)

theorem active_panel_current_index_keeps_panels_witness:
  "width readme_carousel \<noteq> NaN \<and>
   is_returned (active_panel readme_carousel 0) \<and>
   panels (outcome_state (active_panel readme_carousel 0)) = panels readme_carousel"
proof -
  have w: "width readme_carousel \<noteq> NaN" by (simp add: readme_carousel_def)
  have n: "current_index readme_carousel = 0" by (simp add: readme_carousel_def)
  have r: "is_returned (active_panel readme_carousel 0)" by code_simp
  from active_panel_current_index_keeps_panels [OF w] n w r
  show ?thesis by simp
qed

text \<open>
  C7 as stated fails when the width is \<open>NaN\<close>. The README's carousel built while it is not
  rendered has \<open>current_index = 0\<close> and the width \<open>NaN\<close>; the distance to index 0 is
  \<open>NaN\<close>, \<^verbatim>\<open>NaN !== 0\<close> holds and the transition runs: the link of panel 0, which
  had no \<^verbatim>\<open>tabindex\<close>, gets \<^verbatim>\<open>tabindex="0"\<close>.
\<close>

theorem active_panel_current_index_unrendered:
  "constructor (Some unrendered_container) None = Inr unrendered_carousel \<and>
   current_index unrendered_carousel = 0 \<and>
   width unrendered_carousel = NaN \<and>
   is_returned (active_panel unrendered_carousel 0) \<and>
   getAttribute (p_descendants (panels unrendered_carousel ! 0) ! 1) ''tabindex'' = None \<and>
   getAttribute
     (p_descendants (panels (outcome_state (active_panel unrendered_carousel 0)) ! 0) ! 1)
     ''tabindex'' = Some ''0'' \<and>
   panels (outcome_state (active_panel unrendered_carousel 0)) \<noteq> panels unrendered_carousel"
  by code_simp

text \<open>
  C10. \<open>active_panel\<close> leaves \<open>current_index\<close> as it is, whether it returns or throws;
  \<open>next\<close>, \<open>previous\<close> and the click listener of a tab set it after the call has
  returned. After a direct call that returns, with an index other than the current one that
  is the position of a panel (and a width that is not 0), the panel at that index is the
  one shown and \<open>current_index\<close> is still the old one.
\<close>

theorem active_panel_keeps_current_index:
  "current_index (outcome_state (active_panel this index)) = current_index this \<and>
   (\<forall>s. next_panel this = Returned s \<longrightarrow>
      current_index s =
        (if current_index this < max_index this then current_index this + 1 else 0)) \<and>
   (\<forall>s. previous this = Returned s \<longrightarrow>
      current_index s =
        (if current_index this > 0 then current_index this - 1 else max_index this)) \<and>
   (\<forall>s. tab_click this i = Returned s \<longrightarrow> current_index s = int i) \<and>
   (\<forall>s. active_panel this index = Returned s \<longrightarrow> index \<noteq> current_index this \<longrightarrow>
      width this \<noteq> Num 0 \<longrightarrow> 0 \<le> index \<longrightarrow> index < int (length (panels this)) \<longrightarrow>
      p_getAttribute (panels s ! nat index) ''aria-hidden'' = Some ''false'' \<and>
      current_index s \<noteq> index)"
proof (intro conjI allI impI)
  show "current_index (outcome_state (active_panel this index)) = current_index this"
    by (rule active_panel_current_index)
next
  fix s assume "next_panel this = Returned s"
  from next_panel_Returned [OF this]
  show "current_index s = (if current_index this < max_index this then current_index this + 1 else 0)"
    by simp
next
  fix s assume "previous this = Returned s"
  from previous_Returned [OF this]
  show "current_index s = (if current_index this > 0 then current_index this - 1 else max_index this)"
    by simp
next
  fix s assume "tab_click this i = Returned s"
  then show "current_index s = int i" by (rule tab_click_Returned)
next
  fix s
  assume r: "active_panel this index = Returned s" and ne: "index \<noteq> current_index this"
    and w: "width this \<noteq> Num 0" and rng: "0 \<le> index" "index < int (length (panels this))"
  from ne w have d: "move_distance this index \<noteq> Num 0"
    by (simp add: move_distance_other_index)
  from rng have j: "nat index < length (panels this)" by simp
  from nth_panels_move [OF d j] rng
  have "panels (move this index) ! nat index =
      show_window (set_style_left (panels this ! nat index)
             (js_add (p_left (panels this ! nat index)) (move_distance this index)))" by simp
  with active_panel_Returned_panels [OF r]
  show "p_getAttribute (panels s ! nat index) ''aria-hidden'' = Some ''false''"
    by (simp add: show_window_aria)
next
  fix s
  assume r: "active_panel this index = Returned s" and ne: "index \<noteq> current_index this"
  from active_panel_current_index [of this index] r ne
  show "current_index s \<noteq> index" by simp
qed

theorem active_panel_keeps_current_index_witness:
  "is_returned (active_panel readme_carousel 2) \<and>
   current_index (outcome_state (active_panel readme_carousel 2)) = 0 \<and>
   p_getAttribute (panels (outcome_state (active_panel readme_carousel 2)) ! 2) ''aria-hidden''
     = Some ''false'' \<and>
   current_index (outcome_state (tab_click readme_carousel 2)) = 2 \<and>
   current_index (outcome_state (next_panel readme_carousel)) = 1 \<and>
   current_index (outcome_state (previous readme_carousel)) = 2"
proof -
  have n: "current_index readme_carousel = 0" "max_index readme_carousel = 2"
    "width readme_carousel \<noteq> Num 0" "(2::int) < int (length (panels readme_carousel))"
    by (simp_all add: readme_carousel_def panels_def)
  have r: "is_returned (active_panel readme_carousel 2)"
    "is_returned (tab_click readme_carousel 2)"
    "is_returned (next_panel readme_carousel)"
    "is_returned (previous readme_carousel)"
    by code_simp+
  then obtain s t u v where s: "active_panel readme_carousel 2 = Returned s"
    and t: "tab_click readme_carousel 2 = Returned t"
    and u: "next_panel readme_carousel = Returned u"
    and v: "previous readme_carousel = Returned v"
    by (metis is_returned.elims(2))
  note T = active_panel_keeps_current_index [of readme_carousel 2 2]
  from T n have 1: "current_index (outcome_state (active_panel readme_carousel 2)) = 0"
    by simp
  from T s n have 2: "p_getAttribute (panels s ! nat 2) ''aria-hidden'' = Some ''false''"
    by simp
  from T t have 3: "current_index t = int 2" by blast
  from T u n have 4: "current_index u = 1" by simp
  from T v n have 5: "current_index v = 2" by simp
  from r 1 2 3 4 5 s t u v show ?thesis by simp
qed

section \<open>Properties of next and previous\<close>

lemma deselect_each_wellformed:
  "list_all has_pos ts \<Longrightarrow>
   \<exists>ts'. deselect_each k j ts = Returned ts' \<and> list_all has_pos ts'"
proof (induction ts arbitrary: j)
  case Nil
  then show ?case by simp
next
  case (Cons t ts)
  then obtain ts' where r: "deselect_each k (Suc j) ts = Returned ts'" "list_all has_pos ts'"
    by auto
  from Cons.prems obtain cl where cl: "t_pos t = Some cl" by (auto simp: has_pos_def)
  show ?case
  proof (cases "j = k")
    case True
    with r Cons.prems show ?thesis by simp
  next
    case False
    let ?t1 = "t_setAttribute (t_setAttribute t ''aria-selected'' ''false'') ''tabindex'' ''-1''"
    have t1: "t_pos ?t1 = Some cl" using cl by (simp add: t_setAttribute_def)
    have "has_pos (?t1\<lparr>t_pos := Some (classList_remove cl ''pos-active'')\<rparr>)"
      by (simp add: has_pos_def)
    with False r t1 show ?thesis by (simp add: Let_def)
  qed
qed

lemma deselect_each_throws:
  "i < length ts \<Longrightarrow> j + i \<noteq> k \<Longrightarrow> \<not> has_pos (ts ! i) \<Longrightarrow>
   thrown_error (deselect_each k j ts) = Some TabEmpty"
proof (induction ts arbitrary: i j)
  case Nil
  then show ?case by simp
next
  case (Cons t ts)
  show ?case
  proof (cases i)
    case 0
    with Cons.prems show ?thesis
      by (simp add: Let_def t_setAttribute_def has_pos_def)
  next
    case (Suc i')
    with Cons.prems have "i' < length ts" "Suc j + i' \<noteq> k" "\<not> has_pos (ts ! i')" by simp_all
    from Cons.IH [OF this]
    have th: "thrown_error (deselect_each k (Suc j) ts) = Some TabEmpty" .
    then obtain ts' where th': "deselect_each k (Suc j) ts = Thrown TabEmpty ts'"
      by (cases "deselect_each k (Suc j) ts") auto
    show ?thesis
    proof (cases "j = k")
      case True
      with th' show ?thesis by simp
    next
      case False
      with th' show ?thesis by (simp add: Let_def split: option.splits)
    qed
  qed
qed

lemma active_panel_returns:
  assumes "tabs_wellformed this"
  shows "\<exists>s. active_panel this i = Returned s \<and> tabs_wellformed s
           \<and> current_index s = current_index this \<and> max_index s = max_index this"
proof (cases "tabs this")
  case None
  with assms show ?thesis by (simp add: active_panel_def tabs_wellformed_def)
next
  case (Some ts)
  with assms have wf: "list_all has_pos ts" by (simp add: tabs_wellformed_def)
  show ?thesis
  proof (cases "item ts i")
    case None
    with Some assms show ?thesis by (simp add: active_panel_def tabs_wellformed_def)
  next
    case (Some tab0)
    then have rng: "0 \<le> i" "nat i < length ts" and t0: "tab0 = ts ! nat i"
      by (auto simp: item_def split: if_splits)
    from wf rng t0 obtain cl where cl: "t_pos tab0 = Some cl"
      by (auto simp: list_all_length has_pos_def)
    let ?tab2 = "(t_setAttribute (t_setAttribute tab0 ''aria-selected'' ''true'') ''tabindex'' ''0'')
                   \<lparr>t_pos := Some (classList_add cl ''pos-active'')\<rparr>"
    have "has_pos ?tab2" by (simp add: has_pos_def)
    with wf rng have "list_all has_pos (ts[nat i := ?tab2])"
      by (simp add: list_all_length nth_list_update)
    from deselect_each_wellformed [OF this, of "nat i" 0]
    obtain ts' where "deselect_each (nat i) 0 (ts[nat i := ?tab2]) = Returned ts'"
      "list_all has_pos ts'" by blast
    with \<open>tabs this = Some ts\<close> Some cl show ?thesis
      by (simp add: active_panel_def Let_def t_setAttribute_def tabs_wellformed_def)
  qed
qed

lemma next_panel_returns:
  assumes "tabs_wellformed this"
  shows "\<exists>s. next_panel this = Returned s \<and> tabs_wellformed s"
proof (cases "current_index this < max_index this")
  case True
  from active_panel_returns [OF assms, of "current_index this + 1"] True
  show ?thesis by (auto simp: next_panel_def tabs_wellformed_def)
next
  case False
  from active_panel_returns [OF assms, of 0] False
  show ?thesis by (auto simp: next_panel_def tabs_wellformed_def)
qed

lemma previous_returns:
  assumes "tabs_wellformed this"
  shows "\<exists>s. previous this = Returned s \<and> tabs_wellformed s"
proof (cases "current_index this > 0")
  case True
  from active_panel_returns [OF assms, of "current_index this - 1"] True
  show ?thesis by (auto simp: previous_def tabs_wellformed_def)
next
  case False
  from active_panel_returns [OF assms, of "max_index this"] False
  show ?thesis by (auto simp: previous_def tabs_wellformed_def)
qed

lemma next_times_Returned:
  "next_times n this = Returned s \<Longrightarrow> 0 \<le> current_index this \<Longrightarrow>
   current_index this \<le> max_index this \<Longrightarrow>
   current_index s = (current_index this + int n) mod (max_index this + 1)
   \<and> max_index s = max_index this"
proof (induction n arbitrary: this)
  case 0
  then show ?case by simp
next
  case (Suc n)
  from Suc.prems(1) obtain s1 where s1: "next_panel this = Returned s1"
    and rest: "next_times n s1 = Returned s"
    by (auto split: outcome.splits)
  from next_panel_Returned [OF s1]
  have ci: "current_index s1 = (if current_index this < max_index this then current_index this + 1 else 0)"
    and mx: "max_index s1 = max_index this" by simp_all
  from ci mx Suc.prems have r: "0 \<le> current_index s1" "current_index s1 \<le> max_index s1"
    by (auto split: if_splits)
  from Suc.IH [OF rest r] mx
  have "current_index s = (current_index s1 + int n) mod (max_index this + 1)"
    and m: "max_index s = max_index this" by simp_all
  moreover have "(current_index s1 + int n) mod (max_index this + 1)
      = (current_index this + int (Suc n)) mod (max_index this + 1)"
  proof (cases "current_index this < max_index this")
    case True
    with ci show ?thesis by (simp add: algebra_simps)
  next
    case False
    with Suc.prems have e: "current_index this = max_index this" by simp
    have "(max_index this + int (Suc n)) mod (max_index this + 1)
        = ((max_index this + 1) + int n) mod (max_index this + 1)"
      by (simp add: algebra_simps)
    also have "\<dots> = (0 + int n) mod (max_index this + 1)"
      by (metis add.left_neutral mod_add_self1)
    finally show ?thesis using ci False e by simp
  qed
  ultimately show ?case by simp
qed

lemma next_times_returns:
  "tabs_wellformed this \<Longrightarrow> is_returned (next_times n this)"
proof (induction n arbitrary: this)
  case 0
  then show ?case by simp
next
  case (Suc n)
  from next_panel_returns [OF Suc.prems] obtain s where
    "next_panel this = Returned s" "tabs_wellformed s" by blast
  with Suc.IH [of s] show ?case by simp
qed

text \<open>
  C5. From a current index within \<open>0..max_index\<close>, \<open>max_index + 1\<close> calls of \<open>next\<close>
  that all return bring \<open>current_index\<close> back to where it started; and with well-formed tab
  markup they do all return.
\<close>

theorem next_times_cycle:
  assumes "0 \<le> current_index this" and "current_index this \<le> max_index this"
  shows "(\<forall>s. next_times (nat (max_index this + 1)) this = Returned s
              \<longrightarrow> current_index s = current_index this)
       \<and> (tabs_wellformed this \<longrightarrow> is_returned (next_times (nat (max_index this + 1)) this))"
proof (intro conjI allI impI)
  fix s
  assume "next_times (nat (max_index this + 1)) this = Returned s"
  from next_times_Returned [OF this assms]
  have "current_index s = (current_index this + int (nat (max_index this + 1))) mod (max_index this + 1)"
    by simp
  also have "\<dots> = (current_index this + (max_index this + 1)) mod (max_index this + 1)"
    using assms by simp
  also have "\<dots> = current_index this mod (max_index this + 1)"
    by simp
  also have "\<dots> = current_index this"
    using assms by simp
  finally show "current_index s = current_index this" .
next
  assume "tabs_wellformed this"
  then show "is_returned (next_times (nat (max_index this + 1)) this)"
    by (rule next_times_returns)
qed

theorem next_times_cycle_witness:
  "0 \<le> current_index readme_carousel \<and>
   current_index readme_carousel \<le> max_index readme_carousel \<and>
   tabs_wellformed readme_carousel \<and>
   is_returned (next_times 3 readme_carousel) \<and>
   current_index (outcome_state (next_times 3 readme_carousel)) = 0"
proof -
  have h: "0 \<le> current_index readme_carousel"
    "current_index readme_carousel \<le> max_index readme_carousel"
    by (simp_all add: readme_carousel_def)
  have wf: "tabs_wellformed readme_carousel" by code_simp
  have n: "nat (max_index readme_carousel + 1) = 3" "current_index readme_carousel = 0"
    by (simp_all add: readme_carousel_def)
  from next_times_cycle [OF h] n
  have A: "\<forall>s. next_times 3 readme_carousel = Returned s \<longrightarrow> current_index s = 0"
    and B: "tabs_wellformed readme_carousel \<longrightarrow> is_returned (next_times 3 readme_carousel)"
    by simp_all
  from B wf have r: "is_returned (next_times 3 readme_carousel)" by simp
  then obtain s where s: "next_times 3 readme_carousel = Returned s"
    by (cases "next_times 3 readme_carousel") auto
  with A have "current_index (outcome_state (next_times 3 readme_carousel)) = 0" by simp
  with h wf r show ?thesis by simp
qed

text \<open>
  C6. From a current index within \<open>0..max_index\<close>, \<open>previous\<close> after \<open>next\<close> and
  \<open>next\<close> after \<open>previous\<close> bring \<open>current_index\<close> back, across the wrap-around too;
  and with well-formed tab markup both pairs of calls return.
\<close>

theorem previous_inverse_of_next:
  assumes "0 \<le> current_index this" and "current_index this \<le> max_index this"
  shows "(\<forall>s1 s2. next_panel this = Returned s1 \<longrightarrow> previous s1 = Returned s2
              \<longrightarrow> current_index s2 = current_index this)
       \<and> (\<forall>s1 s2. previous this = Returned s1 \<longrightarrow> next_panel s1 = Returned s2
              \<longrightarrow> current_index s2 = current_index this)
       \<and> (tabs_wellformed this \<longrightarrow>
            (\<exists>s1 s2. next_panel this = Returned s1 \<and> previous s1 = Returned s2) \<and>
            (\<exists>s1 s2. previous this = Returned s1 \<and> next_panel s1 = Returned s2))"
proof (intro conjI allI impI)
  fix s1 s2
  assume "next_panel this = Returned s1" and "previous s1 = Returned s2"
  from next_panel_Returned [OF this(1)] previous_Returned [OF this(2)] assms
  show "current_index s2 = current_index this"
    by (auto split: if_splits)
next
  fix s1 s2
  assume "previous this = Returned s1" and "next_panel s1 = Returned s2"
  from previous_Returned [OF this(1)] next_panel_Returned [OF this(2)] assms
  show "current_index s2 = current_index this"
    by (auto split: if_splits)
next
  assume wf: "tabs_wellformed this"
  from next_panel_returns [OF wf] obtain s1 where
    s1: "next_panel this = Returned s1" "tabs_wellformed s1" by blast
  from previous_returns [OF s1(2)] s1(1)
  show "\<exists>s1 s2. next_panel this = Returned s1 \<and> previous s1 = Returned s2" by blast
next
  assume wf: "tabs_wellformed this"
  from previous_returns [OF wf] obtain s1 where
    s1: "previous this = Returned s1" "tabs_wellformed s1" by blast
  from next_panel_returns [OF s1(2)] s1(1)
  show "\<exists>s1 s2. previous this = Returned s1 \<and> next_panel s1 = Returned s2" by blast
qed

theorem previous_inverse_of_next_witness:
  "0 \<le> current_index readme_carousel \<and>
   current_index readme_carousel \<le> max_index readme_carousel \<and>
   tabs_wellformed readme_carousel \<and>
   current_index (outcome_state (next_panel readme_carousel)) = 1 \<and>
   current_index (outcome_state (previous (outcome_state (next_panel readme_carousel)))) = 0 \<and>
   current_index (outcome_state (previous readme_carousel)) = 2 \<and>
   current_index (outcome_state (next_panel (outcome_state (previous readme_carousel)))) = 0"
proof -
  have h: "0 \<le> current_index readme_carousel"
    "current_index readme_carousel \<le> max_index readme_carousel"
    by (simp_all add: readme_carousel_def)
  have wf: "tabs_wellformed readme_carousel" by code_simp
  have n: "current_index readme_carousel = 0" by (simp add: readme_carousel_def)
  have e: "current_index (outcome_state (next_panel readme_carousel)) = 1"
    "current_index (outcome_state (previous readme_carousel)) = 2"
    by code_simp+
  note T = previous_inverse_of_next [OF h]
  from T wf obtain s1 s2 where
    a: "next_panel readme_carousel = Returned s1" "previous s1 = Returned s2" by blast
  with T have "current_index s2 = current_index readme_carousel" by blast
  with a n have x: "current_index (outcome_state (previous (outcome_state (next_panel readme_carousel)))) = 0"
    by simp
  from T wf obtain u1 u2 where
    b: "previous readme_carousel = Returned u1" "next_panel u1 = Returned u2" by blast
  with T have "current_index u2 = current_index readme_carousel" by blast
  with b n have y: "current_index (outcome_state (next_panel (outcome_state (previous readme_carousel)))) = 0"
    by simp
  from h wf e x y show ?thesis by simp
qed

section \<open>Properties of the constructor\<close>

lemma map_attributes_set_left_each [simp]:
  "map p_attributes (set_left_each w i ps) = map p_attributes ps"
  by (induction ps arbitrary: i) auto

lemma map_descendants_set_left_each [simp]:
  "map p_descendants (set_left_each w i ps) = map p_descendants ps"
  by (induction ps arbitrary: i) auto

lemma first_shown_rest_hidden_attributes:
  "first_shown_rest_hidden ps =
     (case map p_attributes ps of
        [] \<Rightarrow> False
      | a # as \<Rightarrow> map_of a ''aria-hidden'' = Some ''false'' \<and>
                 list_all (\<lambda>b. map_of b ''aria-hidden'' = Some ''true'') as)"
  by (cases ps) (simp_all add: first_shown_rest_hidden_def p_getAttribute_def list.pred_map comp_def)

lemma addEventListener_fields [simp]:
  "container (addEventListener this l) = container this"
  "current_index (addEventListener this l) = current_index this"
  by (simp_all add: addEventListener_def)

lemma enable_navigation_buttons_fields:
  "enable_navigation_buttons this = Inr s \<Longrightarrow>
   container s = container this \<and> current_index s = current_index this"
  by (auto simp: enable_navigation_buttons_def Let_def split: if_splits option.splits)

lemma enable_tabs_buttons_fields [simp]:
  "container (enable_tabs_buttons this) = container this"
  "current_index (enable_tabs_buttons this) = current_index this"
  by (simp_all add: enable_tabs_buttons_def split: option.splits)

lemma enable_keyboard_navigation_fields [simp]:
  "container (enable_keyboard_navigation this) = container this"
  "current_index (enable_keyboard_navigation this) = current_index this"
  by (simp_all add: enable_keyboard_navigation_def)

lemma constructor_Inr:
  assumes "constructor (Some c) opts = Inr this"
  shows "panels this =
           set_left_each (p_computed_width (hd (carousel_content c))) 0 (carousel_content c)
         \<and> current_index this = 0 \<and> carousel_content c \<noteq> []"
  using assms
  by (auto simp: constructor_def Let_def panels_def first_panel_def
      split: list.splits sum.splits if_splits dest!: enable_navigation_buttons_fields)

text \<open>
  C2, as amended. The claim says that after construction the first panel has
  \<^verbatim>\<open>aria-hidden="false"\<close> and the others \<^verbatim>\<open>aria-hidden="true"\<close>. The constructor
  writes only the left offsets: a construction that returns leaves \<open>current_index\<close> at 0
  and every panel with the attributes and the descendants of the markup, so the first
  panel is the only one shown after construction exactly when the markup says so.
\<close>

theorem constructor_keeps_aria_hidden:
  assumes "constructor (Some c) opts = Inr this"
  shows "map p_attributes (panels this) = map p_attributes (carousel_content c) \<and>
         map p_descendants (panels this) = map p_descendants (carousel_content c) \<and>
         current_index this = 0 \<and>
         (first_shown_rest_hidden (panels this) \<longleftrightarrow>
            first_shown_rest_hidden (carousel_content c))"
  using constructor_Inr [OF assms]
  by (simp add: first_shown_rest_hidden_attributes)

text \<open>
  The README's markup says so, and the instance built from it has the first panel
  shown and the others hidden.
\<close>

theorem constructor_keeps_aria_hidden_witness:
  "constructor (Some readme_container) None = Inr readme_carousel \<and>
   map p_attributes (panels readme_carousel) = map p_attributes (carousel_content readme_container) \<and>
   current_index readme_carousel = 0 \<and>
   first_shown_rest_hidden (carousel_content readme_container) \<and>
   first_shown_rest_hidden (panels readme_carousel)"
proof -
  have c: "constructor (Some readme_container) None = Inr readme_carousel"
    by code_simp
  have f: "first_shown_rest_hidden (carousel_content readme_container)"
    by code_simp
  from constructor_keeps_aria_hidden [OF c] c f show ?thesis by blast
qed

text \<open>
  C2 as stated fails on two panels that carry no \<^verbatim>\<open>aria-hidden\<close> attribute: the
  construction returns, and no panel has \<^verbatim>\<open>aria-hidden="false"\<close>.
\<close>

theorem constructor_bare_panels:
  "constructed (constructor (Some bare_container) None) \<and>
   \<not> first_shown_rest_hidden (panels_of (constructor (Some bare_container) None))"
  by code_simp

text \<open>
  How the constructor resolves the two options that have a default read off the document:
  an explicit value wins; the default for the navigation buttons is the presence of both
  buttons; the default for the tabs is always true.
\<close>

lemma addEventListener_allow [simp]:
  "allow_tabs (addEventListener this l) = allow_tabs this"
  "allow_navbuttons (addEventListener this l) = allow_navbuttons this"
  by (simp_all add: addEventListener_def)

lemma enable_navigation_buttons_allow:
  "enable_navigation_buttons this = Inr s \<Longrightarrow>
   allow_tabs s = allow_tabs this \<and> allow_navbuttons s = allow_navbuttons this"
  by (auto simp: enable_navigation_buttons_def Let_def split: if_splits option.splits)

lemma enable_tabs_buttons_allow [simp]:
  "allow_tabs (enable_tabs_buttons this) = allow_tabs this"
  "allow_navbuttons (enable_tabs_buttons this) = allow_navbuttons this"
  by (simp_all add: enable_tabs_buttons_def split: option.splits)

lemma enable_keyboard_navigation_allow [simp]:
  "allow_tabs (enable_keyboard_navigation this) = allow_tabs this"
  "allow_navbuttons (enable_keyboard_navigation this) = allow_navbuttons this"
  by (simp_all add: enable_keyboard_navigation_def)

lemma constructor_allow_tabs:
  assumes "constructor (Some c) options_arg = Inr this"
  shows "options_arg = None \<Longrightarrow> allow_tabs this"
    and "options_arg = Some opts \<Longrightarrow> opt_tabs opts = None \<Longrightarrow> allow_tabs this"
    and "options_arg = Some opts \<Longrightarrow> opt_tabs opts = Some b \<Longrightarrow> allow_tabs this = b"
  using assms
  by (auto simp: constructor_def Let_def first_panel_def
      split: list.splits sum.splits if_splits dest!: enable_navigation_buttons_allow)

lemma constructor_allow_navbuttons:
  assumes "constructor (Some c) options_arg = Inr this"
  shows "options_arg = None \<Longrightarrow>
           allow_navbuttons this = (carousel_prev c \<noteq> None \<and> carousel_next c \<noteq> None)"
    and "options_arg = Some opts \<Longrightarrow> opt_navigations_buttons opts = None \<Longrightarrow>
           allow_navbuttons this = (carousel_prev c \<noteq> None \<and> carousel_next c \<noteq> None)"
    and "options_arg = Some opts \<Longrightarrow> opt_navigations_buttons opts = Some b \<Longrightarrow>
           allow_navbuttons this = b"
  using assms
  by (auto simp: constructor_def Let_def first_panel_def
      split: list.splits sum.splits if_splits dest!: enable_navigation_buttons_allow)

text \<open>
  C4, at the failing input. The claim: with no explicit option, tabs are enabled if and
  only if a tab list exists. The default is \<^verbatim>\<open>this.tabs !== null\<close>, and \<^verbatim>\<open>this.tabs\<close>
  is the node list \<^verbatim>\<open>querySelectorAll\<close> answers, which is never \<^verbatim>\<open>null\<close>: in a
  container with three panels and no tab list, tabs are enabled by default, and
  \<open>max_index\<close> is the number of tabs minus one, -1.
\<close>

theorem constructor_no_tablist_allow_tabs:
  "tablist_li no_tablist_container = [] \<and>
   allow_tabs_of (constructor (Some no_tablist_container) None) = Some True \<and>
   allow_tabs_of (constructor (Some no_tablist_container) (Some no_options)) = Some True \<and>
   max_index_of (constructor (Some no_tablist_container) None) = Some (- 1)"
  by code_simp

lemma constructor_None: "constructor None opts = Inl ContainerUndefined"
  by (simp add: constructor_def)

lemma constructor_no_window:
  "carousel_content c = [] \<Longrightarrow> constructor (Some c) opts = Inl NoWindow"
  by (simp add: constructor_def Let_def first_panel_def)

lemma constructor_no_next:
  "carousel_content c \<noteq> [] \<Longrightarrow> navigation_buttons_required opts \<Longrightarrow>
   carousel_next c = None \<Longrightarrow> constructor (Some c) opts = Inl NoNextButton"
  by (cases "carousel_content c")
    (auto simp: constructor_def Let_def first_panel_def navigation_buttons_required_def
      enable_navigation_buttons_def split: option.splits)

lemma constructor_no_previous:
  "carousel_content c \<noteq> [] \<Longrightarrow> navigation_buttons_required opts \<Longrightarrow>
   carousel_next c \<noteq> None \<Longrightarrow> carousel_prev c = None \<Longrightarrow>
   constructor (Some c) opts = Inl NoPreviousButton"
  by (cases "carousel_content c")
    (auto simp: constructor_def Let_def first_panel_def navigation_buttons_required_def
      enable_navigation_buttons_def split: option.splits)

lemma constructor_returns:
  "carousel_content c \<noteq> [] \<Longrightarrow>
   (navigation_buttons_required opts \<longrightarrow> carousel_next c \<noteq> None \<and> carousel_prev c \<noteq> None) \<Longrightarrow>
   constructed (constructor (Some c) opts)"
  by (cases "carousel_content c")
    (auto simp: constructor_def Let_def first_panel_def navigation_buttons_required_def
      enable_navigation_buttons_def constructed_def split: option.splits)

lemma active_panel_tab_empty:
  assumes "tabs this = Some ts" and "item ts index \<noteq> None" and "\<not> list_all has_pos ts"
  shows "thrown_error (active_panel this index) = Some TabEmpty"
proof -
  from assms(2) obtain tab0 where it: "item ts index = Some tab0" by auto
  then have rng: "0 \<le> index" "nat index < length ts" and t0: "tab0 = ts ! nat index"
    by (auto simp: item_def split: if_splits)
  let ?tab1 = "t_setAttribute (t_setAttribute tab0 ''aria-selected'' ''true'') ''tabindex'' ''0''"
  have p1: "t_pos ?tab1 = t_pos tab0" by (simp add: t_setAttribute_def)
  show ?thesis
  proof (cases "t_pos tab0")
    case None
    with assms(1) it p1 show ?thesis by (simp add: active_panel_def Let_def)
  next
    case (Some cl)
    let ?tab2 = "?tab1\<lparr>t_pos := Some (classList_add cl ''pos-active'')\<rparr>"
    from assms(3) obtain i where i: "i < length ts" "\<not> has_pos (ts ! i)"
      by (auto simp: list_all_length)
    with Some t0 have ne: "i \<noteq> nat index" by (auto simp: has_pos_def)
    with i have "i < length (ts[nat index := ?tab2])" "0 + i \<noteq> nat index"
      "\<not> has_pos (ts[nat index := ?tab2] ! i)" by simp_all
    from deselect_each_throws [OF this]
    obtain ts' where "deselect_each (nat index) 0 (ts[nat index := ?tab2]) = Thrown TabEmpty ts'"
      by (cases "deselect_each (nat index) 0 (ts[nat index := ?tab2])") auto
    with assms(1) it p1 Some show ?thesis by (simp add: active_panel_def Let_def)
  qed
qed

text \<open>
  C8, as amended. The constructor throws when the container is absent, when there is no
  panel, and when the options require navigation buttons and the next or the previous
  button is missing. In every other case it returns an instance, whatever the tab markup:
  a tab with no \<^verbatim>\<open>.pos\<close> is not detected at construction. It is detected by
  \<open>active_panel\<close>, which throws when it is called with the index of a tab and some tab has
  no \<^verbatim>\<open>.pos\<close>.
\<close>

theorem construction_errors:
  "constructor None opts = Inl ContainerUndefined \<and>
   (carousel_content c = [] \<longrightarrow> constructor (Some c) opts = Inl NoWindow) \<and>
   (carousel_content c \<noteq> [] \<longrightarrow> navigation_buttons_required opts \<longrightarrow>
      carousel_next c = None \<longrightarrow> constructor (Some c) opts = Inl NoNextButton) \<and>
   (carousel_content c \<noteq> [] \<longrightarrow> navigation_buttons_required opts \<longrightarrow>
      carousel_next c \<noteq> None \<longrightarrow> carousel_prev c = None \<longrightarrow>
      constructor (Some c) opts = Inl NoPreviousButton) \<and>
   (carousel_content c \<noteq> [] \<longrightarrow>
      (navigation_buttons_required opts \<longrightarrow> carousel_next c \<noteq> None \<and> carousel_prev c \<noteq> None) \<longrightarrow>
      constructed (constructor (Some c) opts)) \<and>
   (tabs this = Some ts \<longrightarrow> item ts index \<noteq> None \<longrightarrow> \<not> list_all has_pos ts \<longrightarrow>
      thrown_error (active_panel this index) = Some TabEmpty)"
  using constructor_None constructor_no_window constructor_no_next constructor_no_previous
    constructor_returns active_panel_tab_empty by blast

theorem construction_errors_witness:
  "constructor None (Some no_options) = Inl ContainerUndefined \<and>
   constructor (Some no_panel_container) None = Inl NoWindow \<and>
   constructor (Some no_next_container) (Some require_buttons) = Inl NoNextButton \<and>
   constructor (Some no_prev_container) (Some require_buttons) = Inl NoPreviousButton \<and>
   constructed (constructor (Some empty_tab_container) None) \<and>
   thrown_error (active_panel empty_tab_carousel 2) = Some TabEmpty"
proof -
  have a: "carousel_content no_panel_container = []" by code_simp
  have b: "carousel_content no_next_container \<noteq> []"
    "navigation_buttons_required (Some require_buttons)"
    "carousel_next no_next_container = None"
    by code_simp+
  have c: "carousel_content no_prev_container \<noteq> []"
    "carousel_next no_prev_container \<noteq> None"
    "carousel_prev no_prev_container = None"
    by code_simp+
  have d: "carousel_content empty_tab_container \<noteq> []"
    "\<not> navigation_buttons_required None"
    by code_simp+
  have e: "tabs empty_tab_carousel = Some [good_tab True, empty_tab, good_tab False]"
    "item [good_tab True, empty_tab, good_tab False] 2 \<noteq> None"
    "\<not> list_all has_pos [good_tab True, empty_tab, good_tab False]"
    by code_simp+
  from construction_errors [of "Some no_options" no_panel_container empty_tab_carousel
      "[good_tab True, empty_tab, good_tab False]" 2] a e
  have 1: "constructor None (Some no_options) = Inl ContainerUndefined"
    and 2: "thrown_error (active_panel empty_tab_carousel 2) = Some TabEmpty"
    by blast+
  from construction_errors [of None no_panel_container] a
  have 3: "constructor (Some no_panel_container) None = Inl NoWindow" by blast
  from construction_errors [of "Some require_buttons" no_next_container] b
  have 4: "constructor (Some no_next_container) (Some require_buttons) = Inl NoNextButton"
    by blast
  from construction_errors [of "Some require_buttons" no_prev_container] b(2) c
  have 5: "constructor (Some no_prev_container) (Some require_buttons) = Inl NoPreviousButton"
    by blast
  from construction_errors [of None empty_tab_container] d
  have 6: "constructed (constructor (Some empty_tab_container) None)" by blast
  from 1 2 3 4 5 6 show ?thesis by blast
qed

text \<open>
  C8 as stated fails on a tab list whose second item has no \<^verbatim>\<open>.pos\<close>: the
  construction returns.
\<close>

theorem constructor_empty_tab:
  "\<not> list_all has_pos (tablist_li empty_tab_container) \<and>
   constructed (constructor (Some empty_tab_container) None) \<and>
   construction_error (constructor (Some empty_tab_container) None) = None"
  by code_simp

end
